theory Spec2Isabelle
  imports Main
begin

section \<open>Time values and the date library\<close>

text \<open>
  A JavaScript \<open>Date\<close> is the number of milliseconds since the epoch; an \<open>instant\<close> is
  that number. Local wall-clock time is read in a zone with a constant offset \<open>tz\<close>
  (milliseconds east of UTC): the local calendar day of \<open>t\<close> is \<open>(t + tz) div 86400000\<close>
  and its local time of day is \<open>(t + tz) mod 86400000\<close>. Zones that change their offset
  (daylight saving) are outside this model.
\<close>

type_synonym instant = int

definition MS_PER_MINUTE :: int where
  "MS_PER_MINUTE = 60000"

definition MS_PER_DAY :: int where
  "MS_PER_DAY = 86400000"

definition localDay :: "int \<Rightarrow> instant \<Rightarrow> int" where
  "localDay tz t = (t + tz) div MS_PER_DAY"

definition localTimeOfDay :: "int \<Rightarrow> instant \<Rightarrow> int" where
  "localTimeOfDay tz t = (t + tz) mod MS_PER_DAY"

text \<open>\<open>addMinutes\<close>, \<open>addDays\<close>, \<open>isBefore\<close> and \<open>endOfDay\<close> of date-fns.
  \<open>addDays\<close> moves the local calendar date and keeps the local time of day;
  \<open>endOfDay\<close> is 23:59:59.999 of the local calendar day.\<close>

definition addMinutes :: "instant \<Rightarrow> int \<Rightarrow> instant" where
  "addMinutes d amount = d + amount * MS_PER_MINUTE"

definition addDays :: "instant \<Rightarrow> int \<Rightarrow> instant" where
  "addDays d amount = d + amount * MS_PER_DAY"

definition isBefore :: "instant \<Rightarrow> instant \<Rightarrow> bool" where
  "isBefore d dateToCompare = (d < dateToCompare)"

definition endOfDay :: "int \<Rightarrow> instant \<Rightarrow> instant" where
  "endOfDay tz d = localDay tz d * MS_PER_DAY + (MS_PER_DAY - 1) - tz"

text \<open>\<open>d.setFullYear(day.getFullYear(), day.getMonth(), day.getDate())\<close>: the local
  calendar date of \<open>day\<close> with the local time of day of \<open>d\<close>.\<close>

definition setFullYear :: "int \<Rightarrow> instant \<Rightarrow> instant \<Rightarrow> instant" where
  "setFullYear tz d dy = localDay tz dy * MS_PER_DAY + localTimeOfDay tz d - tz"

text \<open>
  The texts that \<open>format\<close> and \<open>toISOString\<close> produce are kept as the values they
  render: \<open>toISOString\<close> as the instant, \<open>format(d, "yyyy-MM-dd")\<close> as the local calendar
  day of \<open>d\<close> (the pattern shows that day and nothing else), \<open>format(d, "EEEE, MMMM d")\<close>
  as the local calendar day whose weekday, month and day of month it spells, and
  \<open>format(d, "h:mm a")\<close> as the local minute of the day.
  \<open>new Date(date)\<close> of a date-only text \<open>yyyy-MM-dd\<close> is midnight UTC of that day.
\<close>

definition formatDate :: "int \<Rightarrow> instant \<Rightarrow> int" where
  "formatDate tz d = localDay tz d"

definition formatDayLabel :: "int \<Rightarrow> instant \<Rightarrow> int" where
  "formatDayLabel tz d = localDay tz d"

definition formatClock :: "int \<Rightarrow> instant \<Rightarrow> int" where
  "formatClock tz d = localTimeOfDay tz d div MS_PER_MINUTE"

definition newDateOfDateText :: "int \<Rightarrow> instant" where
  "newDateOfDateText dateText = dateText * MS_PER_DAY"

section \<open>Data model\<close>

record User =
  userId :: string
  role :: string
  verificationStatus :: string

record Availability =
  availDoctorId :: string
  availStartTime :: instant
  availEndTime :: instant
  availStatus :: string

record Appointment =
  apptDoctorId :: string
  apptStatus :: string
  startTimeA :: instant
  endTimeA :: instant

record TimeSlot =
  startTime :: instant
  endTime :: instant
  formatted :: "int \<times> int"
  day :: int

record TimeSlotDay =
  date :: int
  displayDate :: int
  slots :: "TimeSlot list"

text \<open>What the function reads from outside: the three tables, the system clock
  (\<open>new Date()\<close>) and the zone of the process.\<close>

record Env =
  users :: "User list"
  availabilities :: "Availability list"
  appointments :: "Appointment list"
  clock :: instant
  tzOffset :: int

section \<open>getAvailableTimeSlots\<close>

text \<open>The callback of \<open>existingAppointments.some\<close>: three alternatives.\<close>

definition overlapsOne :: "instant \<Rightarrow> instant \<Rightarrow> Appointment \<Rightarrow> bool" where
  "overlapsOne current next appointment =
     (let aStart = startTimeA appointment; aEnd = endTimeA appointment in
        (current \<ge> aStart \<and> current < aEnd) \<or>
        (next > aStart \<and> next \<le> aEnd) \<or>
        (current \<le> aStart \<and> next \<ge> aEnd))"

definition overlaps :: "Appointment list \<Rightarrow> instant \<Rightarrow> instant \<Rightarrow> bool" where
  "overlaps existingAppointments current next =
     list_ex (overlapsOne current next) existingAppointments"

definition mkSlot :: "int \<Rightarrow> instant \<Rightarrow> instant \<Rightarrow> TimeSlot" where
  "mkSlot tz current next =
     \<lparr> startTime = current, endTime = next,
       formatted = (formatClock tz current, formatClock tz next),
       day = formatDayLabel tz current \<rparr>"

text \<open>The condition of the \<open>while\<close> loop.\<close>

definition loopGuard :: "instant \<Rightarrow> instant \<Rightarrow> bool" where
  "loopGuard current end = (isBefore (addMinutes current 30) end \<or> addMinutes current 30 = end)"

text \<open>The \<open>while\<close> loop of one day; the result is the sequence of slots it pushes.\<close>

function slotLoop :: "int \<Rightarrow> instant \<Rightarrow> Appointment list \<Rightarrow> instant \<Rightarrow> instant \<Rightarrow> TimeSlot list" where
  "slotLoop tz now existingAppointments end current =
     (if loopGuard current end then
        (let next = addMinutes current 30 in
           if isBefore current now then slotLoop tz now existingAppointments end next
           else if \<not> overlaps existingAppointments current next
             then mkSlot tz current next # slotLoop tz now existingAppointments end next
           else slotLoop tz now existingAppointments end next)
      else [])"
  by pat_completeness auto
termination
  by (relation "measure (\<lambda>(tz, now, ex, end, current). nat (end - current))")
     (auto simp: loopGuard_def isBefore_def addMinutes_def MS_PER_MINUTE_def)

declare slotLoop.simps [simp del]

text \<open>The number of times the body of that loop runs (the loop's condition and its
  step \<open>current = next\<close>, nothing else).\<close>

function loopIterations :: "instant \<Rightarrow> instant \<Rightarrow> nat" where
  "loopIterations end current =
     (if loopGuard current end then Suc (loopIterations end (addMinutes current 30)) else 0)"
  by pat_completeness auto
termination
  by (relation "measure (\<lambda>(end, current). nat (end - current))")
     (auto simp: loopGuard_def isBefore_def addMinutes_def MS_PER_MINUTE_def)

declare loopIterations.simps [simp del]

text \<open>\<open>availableSlotsByDay\<close>: an object with text keys, as the list of its entries in
  insertion order (the order \<open>Object.entries\<close> gives for keys like \<open>2025-01-31\<close>).
  Assigning to a key that is present replaces its value in place.\<close>

fun assign :: "'k \<Rightarrow> 'v \<Rightarrow> ('k \<times> 'v) list \<Rightarrow> ('k \<times> 'v) list" where
  "assign k v [] = [(k, v)]"
| "assign k v ((k', v') # kvs) = (if k' = k then (k, v) # kvs else (k', v') # assign k v kvs)"

text \<open>The body of \<open>for (const day of days)\<close>.\<close>

definition availabilityStartOf :: "int \<Rightarrow> Availability \<Rightarrow> instant \<Rightarrow> instant" where
  "availabilityStartOf tz availability dy = setFullYear tz (availStartTime availability) dy"

definition availabilityEndOf :: "int \<Rightarrow> Availability \<Rightarrow> instant \<Rightarrow> instant" where
  "availabilityEndOf tz availability dy = setFullYear tz (availEndTime availability) dy"

definition daySlots :: "int \<Rightarrow> instant \<Rightarrow> Availability \<Rightarrow> Appointment list \<Rightarrow> instant \<Rightarrow> TimeSlot list" where
  "daySlots tz now availability existingAppointments dy =
     slotLoop tz now existingAppointments
       (availabilityEndOf tz availability dy) (availabilityStartOf tz availability dy)"

definition forDay :: "int \<Rightarrow> instant \<Rightarrow> Availability \<Rightarrow> Appointment list \<Rightarrow>
    (int \<times> TimeSlot list) list \<Rightarrow> instant \<Rightarrow> (int \<times> TimeSlot list) list" where
  "forDay tz now availability existingAppointments availableSlotsByDay dy =
     assign (formatDate tz dy) (daySlots tz now availability existingAppointments dy)
       availableSlotsByDay"

definition toTimeSlotDay :: "int \<Rightarrow> int \<times> TimeSlot list \<Rightarrow> TimeSlotDay" where
  "toTimeSlotDay tz entry =
     (case entry of (d, ss) \<Rightarrow>
        \<lparr> date = d,
          displayDate = (case ss of s # _ \<Rightarrow> day s
                         | [] \<Rightarrow> formatDayLabel tz (newDateOfDateText d)),
          slots = ss \<rparr>)"

definition findDoctor :: "Env \<Rightarrow> string \<Rightarrow> User option" where
  "findDoctor env doctorId =
     find (\<lambda>u. userId u = doctorId \<and> role u = ''DOCTOR'' \<and> verificationStatus u = ''VERIFIED'')
       (users env)"

definition findAvailability :: "Env \<Rightarrow> User \<Rightarrow> Availability option" where
  "findAvailability env doctor =
     find (\<lambda>a. availDoctorId a = userId doctor \<and> availStatus a = ''AVAILABLE'')
       (availabilities env)"

definition nextDays :: "instant \<Rightarrow> instant list" where
  "nextDays now = [now, addDays now 1, addDays now 2, addDays now 3]"

definition findAppointments :: "Env \<Rightarrow> User \<Rightarrow> instant \<Rightarrow> Appointment list" where
  "findAppointments env doctor lastDay =
     filter (\<lambda>a. apptDoctorId a = userId doctor \<and> apptStatus a = ''SCHEDULED'' \<and>
                 startTimeA a \<le> lastDay)
       (appointments env)"

text \<open>The computation once the window and the appointments are fetched.\<close>

definition computeDays :: "int \<Rightarrow> instant \<Rightarrow> Availability \<Rightarrow> Appointment list \<Rightarrow> TimeSlotDay list" where
  "computeDays tz now availability existingAppointments =
     map (toTimeSlotDay tz)
       (foldl (forDay tz now availability existingAppointments) [] (nextDays now))"

text \<open>The \<open>try\<close> block: \<open>Inl\<close> is the message of a thrown \<open>Error\<close>.\<close>

definition tryBlock :: "Env \<Rightarrow> string \<Rightarrow> string + TimeSlotDay list" where
  "tryBlock env doctorId =
     (case findDoctor env doctorId of
        None \<Rightarrow> Inl ''Doctor not found or not verified''
      | Some doctor \<Rightarrow>
          (case findAvailability env doctor of
             None \<Rightarrow> Inl ''No availability set by doctor''
           | Some availability \<Rightarrow>
               (let now = clock env;
                    days = nextDays now;
                    lastDay = endOfDay (tzOffset env) (days ! 3);
                    existingAppointments = findAppointments env doctor lastDay
                in Inr (computeDays (tzOffset env) now availability existingAppointments))))"

text \<open>The whole function: the \<open>catch\<close> rethrows with a prefixed message.\<close>

definition getAvailableTimeSlots :: "Env \<Rightarrow> string \<Rightarrow> string + TimeSlotDay list" where
  "getAvailableTimeSlots env doctorId =
     (case tryBlock env doctorId of
        Inl message \<Rightarrow> Inl (''Failed to fetch available slots: '' @ message)
      | Inr ds \<Rightarrow> Inr ds)"

text \<open>
  The same function with the environment handed from one read to the next, as the source
  performs them: \<open>db.user.findUnique\<close>, \<open>db.availability.findFirst\<close>, \<open>new Date()\<close> and
  \<open>db.appointment.findMany\<close>. Each is a query: it returns its answer and the environment
  it was given. The function calls no \<open>create\<close>, \<open>update\<close> or \<open>delete\<close>, and the dates it
  changes with \<open>setFullYear\<close> are copies made with \<open>new Date(...)\<close>.
\<close>

definition userFindUnique :: "string \<Rightarrow> Env \<Rightarrow> User option \<times> Env" where
  "userFindUnique doctorId env = (findDoctor env doctorId, env)"

definition availabilityFindFirst :: "User \<Rightarrow> Env \<Rightarrow> Availability option \<times> Env" where
  "availabilityFindFirst doctor env = (findAvailability env doctor, env)"

definition newDate :: "Env \<Rightarrow> instant \<times> Env" where
  "newDate env = (clock env, env)"

definition appointmentFindMany :: "User \<Rightarrow> instant \<Rightarrow> Env \<Rightarrow> Appointment list \<times> Env" where
  "appointmentFindMany doctor lastDay env = (findAppointments env doctor lastDay, env)"

definition getAvailableTimeSlotsRun :: "Env \<Rightarrow> string \<Rightarrow> (string + TimeSlotDay list) \<times> Env" where
  "getAvailableTimeSlotsRun env0 doctorId =
     (case userFindUnique doctorId env0 of
        (None, env1) \<Rightarrow>
          (Inl (''Failed to fetch available slots: '' @ ''Doctor not found or not verified''), env1)
      | (Some doctor, env1) \<Rightarrow>
          (case availabilityFindFirst doctor env1 of
             (None, env2) \<Rightarrow>
               (Inl (''Failed to fetch available slots: '' @ ''No availability set by doctor''), env2)
           | (Some availability, env2) \<Rightarrow>
               (case newDate env2 of
                  (now, env3) \<Rightarrow>
                    (case appointmentFindMany doctor
                            (endOfDay (tzOffset env3) (nextDays now ! 3)) env3 of
                       (existingAppointments, env4) \<Rightarrow>
                         (Inr (computeDays (tzOffset env4) now availability existingAppointments),
                          env4)))))"

section \<open>The loop in closed form\<close>

text \<open>
  Not part of the source: the starts the loop of a day visits, as a list, and the test a
  visited start passes to be pushed. The loop is proved equal to filtering that list
  (\<open>slotLoop_closed\<close> below).
\<close>

definition SLOT_MS :: int where
  "SLOT_MS = 30 * MS_PER_MINUTE"

definition candidates :: "instant \<Rightarrow> instant \<Rightarrow> instant list" where
  "candidates end current =
     map (\<lambda>k. current + int k * SLOT_MS) [0 ..< nat ((end - current) div SLOT_MS)]"

definition accepted :: "instant \<Rightarrow> Appointment list \<Rightarrow> instant \<Rightarrow> bool" where
  "accepted now existingAppointments c =
     (\<not> isBefore c now \<and> \<not> overlaps existingAppointments c (addMinutes c 30))"

section \<open>Example inputs\<close>

text \<open>
  The examples are in UTC (\<open>tzOffset = 0\<close>) on the first days of the epoch, so an instant
  on day 0 is its time of day: 08:00 is 28800000, 09:00 is 32400000, 09:15 is 33300000,
  09:30 is 34200000, 10:00 is 36000000, 10:30 is 37800000, 12:00 is 43200000 and 17:00 is
  61200000; a day is 86400000. The doctor's window is 09:00 to 10:00 and one appointment
  is booked from 09:00 to 09:30 on day 0; \<open>exBookingDay10\<close> is an appointment on day 10,
  after the four days of the query. \<open>exSlot\<close> writes a slot by its start, the
  minute of the day of its start and the number of its day.
\<close>

definition exDoctor :: User where
  "exDoctor = \<lparr> userId = ''doc1'', role = ''DOCTOR'', verificationStatus = ''VERIFIED'' \<rparr>"

definition exWindow :: Availability where
  "exWindow = \<lparr> availDoctorId = ''doc1'', availStartTime = 32400000,
                 availEndTime = 36000000, availStatus = ''AVAILABLE'' \<rparr>"

definition exBooking :: Appointment where
  "exBooking = \<lparr> apptDoctorId = ''doc1'', apptStatus = ''SCHEDULED'',
                  startTimeA = 32400000, endTimeA = 34200000 \<rparr>"

definition exEnv :: Env where
  "exEnv = \<lparr> users = [exDoctor], availabilities = [exWindow], appointments = [exBooking],
              clock = 28800000, tzOffset = 0 \<rparr>"

definition exSlot :: "instant \<Rightarrow> int \<Rightarrow> int \<Rightarrow> TimeSlot" where
  "exSlot start minuteOfDay dayNo =
     \<lparr> startTime = start, endTime = start + 1800000,
       formatted = (minuteOfDay, minuteOfDay + 30), day = dayNo \<rparr>"

definition exDays :: "TimeSlotDay list" where
  "exDays =
     [ \<lparr> date = 0, displayDate = 0, slots = [exSlot 34200000 570 0] \<rparr>,
       \<lparr> date = 1, displayDate = 1, slots = [exSlot 118800000 540 1, exSlot 120600000 570 1] \<rparr>,
       \<lparr> date = 2, displayDate = 2, slots = [exSlot 205200000 540 2, exSlot 207000000 570 2] \<rparr>,
       \<lparr> date = 3, displayDate = 3, slots = [exSlot 291600000 540 3, exSlot 293400000 570 3] \<rparr> ]"

definition exBookingLater :: Appointment where
  "exBookingLater = \<lparr> apptDoctorId = ''doc1'', apptStatus = ''SCHEDULED'',
                       startTimeA = 36000000, endTimeA = 37800000 \<rparr>"

definition exEnvLate :: Env where
  "exEnvLate = \<lparr> users = [exDoctor], availabilities = [exWindow], appointments = [],
                  clock = 33300000, tzOffset = 0 \<rparr>"

definition exDaysLate :: "TimeSlotDay list" where
  "exDaysLate =
     [ \<lparr> date = 0, displayDate = 0, slots = [exSlot 34200000 570 0] \<rparr>,
       \<lparr> date = 1, displayDate = 1, slots = [exSlot 118800000 540 1, exSlot 120600000 570 1] \<rparr>,
       \<lparr> date = 2, displayDate = 2, slots = [exSlot 205200000 540 2, exSlot 207000000 570 2] \<rparr>,
       \<lparr> date = 3, displayDate = 3, slots = [exSlot 291600000 540 3, exSlot 293400000 570 3] \<rparr> ]"

definition exWindowReversed :: Availability where
  "exWindowReversed = \<lparr> availDoctorId = ''doc1'', availStartTime = 61200000,
                         availEndTime = 32400000, availStatus = ''AVAILABLE'' \<rparr>"

definition exEnvReversed :: Env where
  "exEnvReversed = \<lparr> users = [exDoctor], availabilities = [exWindowReversed],
                      appointments = [exBooking], clock = 28800000, tzOffset = 0 \<rparr>"

definition exDaysEmpty :: "TimeSlotDay list" where
  "exDaysEmpty =
     [ \<lparr> date = 0, displayDate = 0, slots = [] \<rparr>,
       \<lparr> date = 1, displayDate = 1, slots = [] \<rparr>,
       \<lparr> date = 2, displayDate = 2, slots = [] \<rparr>,
       \<lparr> date = 3, displayDate = 3, slots = [] \<rparr> ]"

definition exEnvNoWindow :: Env where
  "exEnvNoWindow = \<lparr> users = [exDoctor],
                      availabilities = [exWindow \<lparr> availStatus := ''UNAVAILABLE'' \<rparr>],
                      appointments = [exBooking], clock = 28800000, tzOffset = 0 \<rparr>"

definition exEnvNoon :: Env where
  "exEnvNoon = \<lparr> users = [exDoctor], availabilities = [exWindow], appointments = [exBooking],
                  clock = 43200000, tzOffset = 0 \<rparr>"

definition exDaysNoon :: "TimeSlotDay list" where
  "exDaysNoon =
     [ \<lparr> date = 0, displayDate = 0, slots = [] \<rparr>,
       \<lparr> date = 1, displayDate = 1, slots = [exSlot 118800000 540 1, exSlot 120600000 570 1] \<rparr>,
       \<lparr> date = 2, displayDate = 2, slots = [exSlot 205200000 540 2, exSlot 207000000 570 2] \<rparr>,
       \<lparr> date = 3, displayDate = 3, slots = [exSlot 291600000 540 3, exSlot 293400000 570 3] \<rparr> ]"

definition exOtherBooking :: Appointment where
  "exOtherBooking = \<lparr> apptDoctorId = ''doc2'', apptStatus = ''SCHEDULED'',
                       startTimeA = 34200000, endTimeA = 36000000 \<rparr>"

definition exBookingDay10 :: Appointment where
  "exBookingDay10 = \<lparr> apptDoctorId = ''doc1'', apptStatus = ''SCHEDULED'',
                       startTimeA = 896400000, endTimeA = 898200000 \<rparr>"

definition exEnvOther :: Env where
  "exEnvOther = \<lparr> users = [exDoctor], availabilities = [exWindow],
                   appointments = [exOtherBooking, exBooking, exBookingDay10],
                   clock = 28800000, tzOffset = 0 \<rparr>"

text \<open>
  A zone five hours west of UTC (\<open>tzOffset = - 18000000\<close>): local 09:00 of day 0 is the
  instant 50400000, local 10:00 is 54000000 and local 12:00 is 61200000.
\<close>

definition exWindowWest :: Availability where
  "exWindowWest = \<lparr> availDoctorId = ''doc1'', availStartTime = 50400000,
                     availEndTime = 54000000, availStatus = ''AVAILABLE'' \<rparr>"

definition exEnvWest :: Env where
  "exEnvWest = \<lparr> users = [exDoctor], availabilities = [exWindowWest], appointments = [],
                  clock = 61200000, tzOffset = - 18000000 \<rparr>"

definition exDaysWest :: "TimeSlotDay list" where
  "exDaysWest =
     [ \<lparr> date = 0, displayDate = - 1, slots = [] \<rparr>,
       \<lparr> date = 1, displayDate = 1, slots = [exSlot 136800000 540 1, exSlot 138600000 570 1] \<rparr>,
       \<lparr> date = 2, displayDate = 2, slots = [exSlot 223200000 540 2, exSlot 225000000 570 2] \<rparr>,
       \<lparr> date = 3, displayDate = 3, slots = [exSlot 309600000 540 3, exSlot 311400000 570 3] \<rparr> ]"

section \<open>Properties of the loop\<close>

lemma addMinutes_30: "addMinutes c 30 = c + SLOT_MS"
  by (simp add: addMinutes_def SLOT_MS_def)

lemma SLOT_MS_pos: "0 < SLOT_MS"
  by (simp add: SLOT_MS_def MS_PER_MINUTE_def)

lemma loopGuard_iff: "loopGuard current end \<longleftrightarrow> current + SLOT_MS \<le> end"
  by (auto simp: loopGuard_def isBefore_def addMinutes_30)

lemma candidates_stop: "\<not> current + SLOT_MS \<le> end \<Longrightarrow> candidates end current = []"
proof -
  assume "\<not> current + SLOT_MS \<le> end"
  then have lt: "end - current < SLOT_MS" by simp
  have "(end - current) div SLOT_MS \<le> 0"
  proof (cases "0 \<le> end - current")
    case True
    then show ?thesis using lt by (simp add: div_pos_pos_trivial)
  next
    case False
    then have "(end - current) div SLOT_MS < 0"
      using SLOT_MS_pos by (simp add: pos_imp_zdiv_neg_iff)
    then show ?thesis by simp
  qed
  then show ?thesis by (simp add: candidates_def)
qed

lemma candidates_step:
  assumes "current + SLOT_MS \<le> end"
  shows "candidates end current = current # candidates end (current + SLOT_MS)"
proof -
  have "end - current = (end - (current + SLOT_MS)) + SLOT_MS" by simp
  then have "(end - current) div SLOT_MS = ((end - (current + SLOT_MS)) + SLOT_MS) div SLOT_MS"
    by simp
  also have "\<dots> = (end - (current + SLOT_MS)) div SLOT_MS + 1"
    using SLOT_MS_pos by (subst div_add_self2) simp_all
  finally have d: "(end - current) div SLOT_MS = (end - (current + SLOT_MS)) div SLOT_MS + 1" .
  have nn: "0 \<le> (end - (current + SLOT_MS)) div SLOT_MS"
    using assms SLOT_MS_pos by (simp add: pos_imp_zdiv_nonneg_iff)
  then have n: "nat ((end - current) div SLOT_MS) = Suc (nat ((end - (current + SLOT_MS)) div SLOT_MS))"
    using d by simp
  have m: "map (\<lambda>k. current + int k * SLOT_MS) [0..<Suc m] =
        current # map (\<lambda>k. current + SLOT_MS + int k * SLOT_MS) [0..<m]" for m
  proof -
    have "[0..<Suc m] = 0 # map Suc [0..<m]"
      by (simp only: upt_conv_Cons [OF zero_less_Suc] map_Suc_upt)
    then show ?thesis by (simp add: algebra_simps o_def del: upt_Suc)
  qed
  show ?thesis
    by (simp only: candidates_def n m)
qed

lemma slotLoop_unfold:
  "slotLoop tz now ex end current =
     (if current + SLOT_MS \<le> end then
        (if accepted now ex current then [mkSlot tz current (current + SLOT_MS)] else [])
          @ slotLoop tz now ex end (current + SLOT_MS)
      else [])"
  by (subst slotLoop.simps)
     (simp add: loopGuard_iff accepted_def addMinutes_30 Let_def)

lemma slotLoop_closed:
  "slotLoop tz now ex end current =
     map (\<lambda>c. mkSlot tz c (c + SLOT_MS)) (filter (accepted now ex) (candidates end current))"
proof (induction tz now ex "end" current rule: slotLoop.induct)
  case (1 tz now ex e current)
  show ?case
  proof (cases "current + SLOT_MS \<le> e")
    case False
    then show ?thesis
      by (subst slotLoop_unfold) (simp add: candidates_stop)
  next
    case True
    then have g: "loopGuard current e" by (simp add: loopGuard_iff)
    have ih: "slotLoop tz now ex e (current + SLOT_MS) =
        map (\<lambda>c. mkSlot tz c (c + SLOT_MS))
          (filter (accepted now ex) (candidates e (current + SLOT_MS)))"
    proof (cases "isBefore current now")
      case True
      with 1(1) [OF g refl] show ?thesis by (simp add: addMinutes_30)
    next
      case nb: False
      show ?thesis
      proof (cases "overlaps ex current (addMinutes current 30)")
        case True
        with 1(3) [OF g refl nb] show ?thesis by (simp add: addMinutes_30)
      next
        case False
        with 1(2) [OF g refl nb] show ?thesis by (simp add: addMinutes_30)
      qed
    qed
    show ?thesis
      by (subst slotLoop_unfold) (simp add: True candidates_step [OF True] ih)
  qed
qed

lemma loopIterations_closed:
  "loopIterations end current = length (candidates end current)"
proof (induction "end" current rule: loopIterations.induct)
  case (1 e current)
  show ?case
  proof (cases "loopGuard current e")
    case False
    then show ?thesis
      by (subst loopIterations.simps) (simp add: candidates_stop loopGuard_iff)
  next
    case True
    then have le: "current + SLOT_MS \<le> e" by (simp add: loopGuard_iff)
    show ?thesis
      using True 1 [OF True]
      by (subst loopIterations.simps) (simp add: candidates_step [OF le] addMinutes_30)
  qed
qed

lemma le_div_SLOT: "a \<le> b div SLOT_MS \<longleftrightarrow> a * SLOT_MS \<le> b"
proof
  assume "a \<le> b div SLOT_MS"
  then have "a * SLOT_MS \<le> (b div SLOT_MS) * SLOT_MS"
    using SLOT_MS_pos by (simp add: mult_right_mono)
  also have "\<dots> = b - b mod SLOT_MS"
    by (simp add: minus_mod_eq_div_mult)
  also have "\<dots> \<le> b"
    using SLOT_MS_pos by simp
  finally show "a * SLOT_MS \<le> b" .
next
  assume "a * SLOT_MS \<le> b"
  then have "(a * SLOT_MS) div SLOT_MS \<le> b div SLOT_MS"
    using SLOT_MS_pos by (rule zdiv_mono1)
  then show "a \<le> b div SLOT_MS"
    using SLOT_MS_pos by simp
qed

lemma candidates_index:
  "k < nat ((end - current) div SLOT_MS) \<longleftrightarrow> current + (int k + 1) * SLOT_MS \<le> end"
proof -
  have "k < nat ((end - current) div SLOT_MS) \<longleftrightarrow> int k + 1 \<le> (end - current) div SLOT_MS"
    unfolding zless_nat_eq_int_zless by linarith
  also have "\<dots> \<longleftrightarrow> (int k + 1) * SLOT_MS \<le> end - current"
    by (rule le_div_SLOT)
  finally show ?thesis by (simp add: algebra_simps)
qed

lemma candidates_mem:
  "c \<in> set (candidates end current) \<longleftrightarrow>
     (\<exists>k::nat. c = current + int k * SLOT_MS \<and> current + (int k + 1) * SLOT_MS \<le> end)"
proof -
  have "c \<in> set (candidates end current) \<longleftrightarrow>
      (\<exists>k. k < nat ((end - current) div SLOT_MS) \<and> c = current + int k * SLOT_MS)"
    by (auto simp: candidates_def)
  then show ?thesis by (simp only: candidates_index) blast
qed

lemma slotLoop_mem:
  "s \<in> set (slotLoop tz now ex end current) \<longleftrightarrow>
     (\<exists>c \<in> set (candidates end current). accepted now ex c \<and> s = mkSlot tz c (c + SLOT_MS))"
  by (auto simp: slotLoop_closed)

lemma localDay_addDays: "localDay tz (addDays d k) = localDay tz d + k"
proof -
  have "d + k * MS_PER_DAY + tz = (d + tz) + k * MS_PER_DAY" by simp
  then show ?thesis
    by (simp only: localDay_def addDays_def) (simp add: MS_PER_DAY_def)
qed

lemma foldl_forDay:
  "foldl (forDay tz now av ex) [] (nextDays now) =
     map (\<lambda>d. (formatDate tz d, daySlots tz now av ex d)) (nextDays now)"
  by (simp add: nextDays_def forDay_def formatDate_def localDay_addDays)

lemma computeDays_eq:
  "computeDays tz now av ex =
     map (\<lambda>d. toTimeSlotDay tz (formatDate tz d, daySlots tz now av ex d)) (nextDays now)"
  by (simp add: computeDays_def foldl_forDay)

lemma toTimeSlotDay_sel [simp]:
  "slots (toTimeSlotDay tz (k, ss)) = ss" "date (toTimeSlotDay tz (k, ss)) = k"
  by (simp_all add: toTimeSlotDay_def)

lemma getAvailableTimeSlots_Inr:
  assumes "getAvailableTimeSlots env doctorId = Inr ds"
  obtains doctor av where
    "findDoctor env doctorId = Some doctor"
    "findAvailability env doctor = Some av"
    "ds = computeDays (tzOffset env) (clock env) av
            (findAppointments env doctor (endOfDay (tzOffset env) (addDays (clock env) 3)))"
  using assms
  by (auto simp: getAvailableTimeSlots_def tryBlock_def nextDays_def Let_def
        split: option.splits sum.splits)

lemma findDoctor_id: "findDoctor env doctorId = Some doctor \<Longrightarrow> userId doctor = doctorId"
  by (auto simp: findDoctor_def find_Some_iff)

lemma localTimeOfDay_bounds: "0 \<le> localTimeOfDay tz t" "localTimeOfDay tz t \<le> MS_PER_DAY - 1"
  by (simp_all add: localTimeOfDay_def MS_PER_DAY_def)

lemma availabilityEndOf_le: "availabilityEndOf tz av d \<le> endOfDay tz d"
  using localTimeOfDay_bounds(2) [of tz "availEndTime av"]
  by (simp add: availabilityEndOf_def setFullYear_def endOfDay_def)

lemma endOfDay_nextDays:
  "d \<in> set (nextDays now) \<Longrightarrow> endOfDay tz d \<le> endOfDay tz (addDays now 3)"
  by (auto simp: nextDays_def endOfDay_def localDay_addDays MS_PER_DAY_def)

lemma overlapsOne_halfopen:
  "current < endTimeA b \<Longrightarrow> startTimeA b < next \<Longrightarrow> overlapsOne current next b"
  by (auto simp: overlapsOne_def Let_def)

lemma day_slot_cases:
  assumes "d \<in> set (computeDays tz now av ex)" "s \<in> set (slots d)"
  obtains dy c where "dy \<in> set (nextDays now)"
    "c \<in> set (candidates (availabilityEndOf tz av dy) (availabilityStartOf tz av dy))"
    "accepted now ex c" "s = mkSlot tz c (c + SLOT_MS)"
  using assms
  by (auto simp: computeDays_eq daySlots_def slotLoop_mem)

lemma exEnv_result: "getAvailableTimeSlots exEnv ''doc1'' = Inr exDays"
  by code_simp

lemma overlapsOne_iff:
  assumes "startTimeA b < endTimeA b" "current < next"
  shows "overlapsOne current next b \<longleftrightarrow> current < endTimeA b \<and> startTimeA b < next"
  using assms by (auto simp: overlapsOne_def Let_def)

lemma slotLoop_step:
  "loopGuard current end \<Longrightarrow>
   slotLoop tz now ex end current =
     (if accepted now ex current then [mkSlot tz current (addMinutes current 30)] else [])
       @ slotLoop tz now ex end (addMinutes current 30)"
  by (subst slotLoop_unfold) (simp add: loopGuard_iff addMinutes_30)



lemma slotLoop_done: "end < addMinutes current 30 \<Longrightarrow> slotLoop tz now ex end current = []"
  by (subst slotLoop_unfold) (simp add: addMinutes_30)

lemma exEnvLate_result: "getAvailableTimeSlots exEnvLate ''doc1'' = Inr exDaysLate"
  by code_simp

lemma length_nextDays: "length (nextDays now) = 4"
  by (simp add: nextDays_def)

lemma sorted_candidates: "sorted_wrt (<) (candidates end current)"
  using SLOT_MS_pos by (simp add: candidates_def sorted_wrt_map sorted_wrt_iff_nth_less)

lemma sorted_slotLoop: "sorted_wrt (<) (map startTime (slotLoop tz now ex end current))"
proof -
  have "map startTime (slotLoop tz now ex end current) =
      filter (accepted now ex) (candidates end current)"
    by (simp add: slotLoop_closed o_def mkSlot_def)
  then show ?thesis
    by (simp add: sorted_wrt_filter sorted_candidates)
qed

lemma exEnvNoon_result: "getAvailableTimeSlots exEnvNoon ''doc1'' = Inr exDaysNoon"
  by code_simp

lemma daySlots_reversed:
  assumes "localTimeOfDay tz (availEndTime av) \<le> localTimeOfDay tz (availStartTime av)"
  shows "daySlots tz now av ex dy = []"
proof -
  have "availabilityEndOf tz av dy \<le> availabilityStartOf tz av dy"
    using assms by (simp add: availabilityEndOf_def availabilityStartOf_def setFullYear_def)
  then have "\<not> availabilityStartOf tz av dy + SLOT_MS \<le> availabilityEndOf tz av dy"
    using SLOT_MS_pos by simp
  then show ?thesis
    by (simp add: daySlots_def slotLoop_closed candidates_stop)
qed

lemma formatDayLabel_newDate:
  "formatDayLabel tz (newDateOfDateText k) = k + tz div MS_PER_DAY"
proof -
  have "k * MS_PER_DAY + tz = tz + k * MS_PER_DAY" by simp
  then show ?thesis
    by (simp only: formatDayLabel_def newDateOfDateText_def localDay_def)
       (simp add: MS_PER_DAY_def)
qed

lemma findAvailability_by_id:
  "userId doctor = doctorId \<Longrightarrow>
   findAvailability env doctor =
     find (\<lambda>a. availDoctorId a = doctorId \<and> availStatus a = ''AVAILABLE'') (availabilities env)"
  by (simp add: findAvailability_def)

lemma findAppointments_fetched:
  "userId doctor = doctorId \<Longrightarrow>
   findAppointments env doctor lastDay =
     filter (\<lambda>a. apptDoctorId a = doctorId \<and> apptStatus a = ''SCHEDULED'' \<and>
                 startTimeA a \<le> lastDay) (appointments env)"
  by (simp add: findAppointments_def)

lemma getAvailableTimeSlotsRun_eq:
  "getAvailableTimeSlotsRun env doctorId = (getAvailableTimeSlots env doctorId, env)"
  by (simp add: getAvailableTimeSlotsRun_def userFindUnique_def availabilityFindFirst_def
      newDate_def appointmentFindMany_def getAvailableTimeSlots_def tryBlock_def Let_def
      split: option.split)

lemma exEnvWest_result: "getAvailableTimeSlots exEnvWest ''doc1'' = Inr exDaysWest"
  by code_simp

lemma div_day_unique:
  assumes "l * MS_PER_DAY \<le> x" "x < l * MS_PER_DAY + MS_PER_DAY"
  shows "x div MS_PER_DAY = l"
proof -
  have "x = (x - l * MS_PER_DAY) + l * MS_PER_DAY" by simp
  then have "x div MS_PER_DAY = ((x - l * MS_PER_DAY) + l * MS_PER_DAY) div MS_PER_DAY"
    by simp
  also have "\<dots> = (x - l * MS_PER_DAY) div MS_PER_DAY + l"
    by (subst div_mult_self1) (simp_all add: MS_PER_DAY_def)
  also have "(x - l * MS_PER_DAY) div MS_PER_DAY = 0"
    using assms by (intro div_pos_pos_trivial) simp_all
  finally show ?thesis by simp
qed

lemma candidate_same_day:
  assumes "c \<in> set (candidates (availabilityEndOf tz av dy) (availabilityStartOf tz av dy))"
  shows "localDay tz c = localDay tz dy"
proof -
  from assms obtain k :: nat where
    c: "c = availabilityStartOf tz av dy + int k * SLOT_MS" and
    e: "availabilityStartOf tz av dy + (int k + 1) * SLOT_MS \<le> availabilityEndOf tz av dy"
    by (auto simp: candidates_mem)
  have k0: "0 \<le> int k * SLOT_MS"
    using SLOT_MS_pos by simp
  have lo: "localDay tz dy * MS_PER_DAY \<le> c + tz"
    using localTimeOfDay_bounds(1) [of tz "availStartTime av"] k0
    by (simp add: c availabilityStartOf_def setFullYear_def)
  have "c + SLOT_MS \<le> availabilityEndOf tz av dy"
    using e by (simp add: c algebra_simps)
  then have "c + tz < localDay tz dy * MS_PER_DAY + MS_PER_DAY"
    using localTimeOfDay_bounds(2) [of tz "availEndTime av"] SLOT_MS_pos
    by (simp add: availabilityEndOf_def setFullYear_def)
  with lo show ?thesis
    unfolding localDay_def [of tz c] by (rule div_day_unique)
qed

lemma slotLoop_hd_candidate:
  assumes "slotLoop tz now ex end current \<noteq> []"
  obtains c where "c \<in> set (candidates end current)"
    "hd (slotLoop tz now ex end current) = mkSlot tz c (c + SLOT_MS)"
proof -
  from assms have "hd (slotLoop tz now ex end current) \<in> set (slotLoop tz now ex end current)"
    by (rule hd_in_set)
  then show ?thesis
    using that by (auto simp: slotLoop_mem)
qed

lemma displayDate_toTimeSlotDay:
  "displayDate (toTimeSlotDay tz (k, ss)) =
     (if ss = [] then formatDayLabel tz (newDateOfDateText k) else day (hd ss))"
  by (cases ss) (simp_all add: toTimeSlotDay_def)

section \<open>The claims\<close>

text \<open>
  Claim C1. No slot of the result overlaps a booked interval: for every slot \<open>s\<close> of
  every day of the result and every scheduled appointment \<open>b\<close> of the doctor, it is not
  the case that \<open>s\<close> starts before \<open>b\<close> ends and \<open>b\<close> starts before \<open>s\<close> ends. This
  covers the appointments the query leaves out (those starting after the last day) too.
\<close>

theorem slots_never_overlap_bookings:
  assumes "getAvailableTimeSlots env doctorId = Inr ds"
    and "d \<in> set ds" and "s \<in> set (slots d)"
    and "b \<in> set (appointments env)"
    and "apptDoctorId b = doctorId" and "apptStatus b = ''SCHEDULED''"
  shows "\<not> (startTime s < endTimeA b \<and> startTimeA b < endTime s)"
proof -
  define tz where "tz = tzOffset env"
  define now where "now = clock env"
  define lastDay where "lastDay = endOfDay tz (addDays now 3)"
  from assms(1) obtain doctor av where
    doc: "findDoctor env doctorId = Some doctor" and
    ds: "ds = computeDays tz now av (findAppointments env doctor lastDay)"
    unfolding tz_def now_def lastDay_def by (rule getAvailableTimeSlots_Inr)
  from assms(2,3) obtain dy c where
    dy: "dy \<in> set (nextDays now)" and
    c: "c \<in> set (candidates (availabilityEndOf tz av dy) (availabilityStartOf tz av dy))" and
    acc: "accepted now (findAppointments env doctor lastDay) c" and
    s: "s = mkSlot tz c (c + SLOT_MS)"
    unfolding ds by (rule day_slot_cases)
  have st: "startTime s = c" and en: "endTime s = c + SLOT_MS"
    by (simp_all add: s mkSlot_def)
  show ?thesis
  proof (cases "startTimeA b \<le> lastDay")
    case True
    then have "b \<in> set (findAppointments env doctor lastDay)"
      using assms(4-6) findDoctor_id [OF doc] by (simp add: findAppointments_def)
    then have "\<not> overlapsOne c (c + SLOT_MS) b"
      using acc by (auto simp: accepted_def overlaps_def list_ex_iff addMinutes_30)
    then show ?thesis
      using overlapsOne_halfopen [of c b "c + SLOT_MS"] by (auto simp: st en)
  next
    case False
    from c obtain k :: nat where "c = availabilityStartOf tz av dy + int k * SLOT_MS"
      and "availabilityStartOf tz av dy + (int k + 1) * SLOT_MS \<le> availabilityEndOf tz av dy"
      by (auto simp: candidates_mem)
    then have "c + SLOT_MS \<le> availabilityEndOf tz av dy"
      by (simp add: algebra_simps)
    also have "\<dots> \<le> endOfDay tz dy" by (rule availabilityEndOf_le)
    also have "\<dots> \<le> lastDay" unfolding lastDay_def using dy by (rule endOfDay_nextDays)
    finally show ?thesis using False by (simp add: en)
  qed
qed

theorem slots_never_overlap_bookings_witness:
  "getAvailableTimeSlots exEnv ''doc1'' = Inr exDays \<and>
   exBooking \<in> set (appointments exEnv) \<and>
   \<not> (startTime (exSlot 34200000 570 0) < endTimeA exBooking \<and>
      startTimeA exBooking < endTime (exSlot 34200000 570 0))"
proof -
  have b: "exBooking \<in> set (appointments exEnv)"
    by (simp add: exEnv_def)
  have d: "\<lparr> date = 0, displayDate = 0, slots = [exSlot 34200000 570 0] \<rparr> \<in> set exDays"
    by (simp add: exDays_def)
  have "\<not> (startTime (exSlot 34200000 570 0) < endTimeA exBooking \<and>
      startTimeA exBooking < endTime (exSlot 34200000 570 0))"
    using slots_never_overlap_bookings [OF exEnv_result d _ b]
    by (simp add: exBooking_def)
  with exEnv_result b show ?thesis by simp
qed

text \<open>
  Claim C2. When every booked interval has its start before its end, the test that
  discards a candidate \<open>[current, next)\<close> is the half-open overlap rule: it holds exactly
  when some booked interval \<open>[aStart, aEnd)\<close> has \<open>current < aEnd\<close> and \<open>aStart < next\<close>,
  and a candidate that is not in the past is pushed exactly when no interval does. A
  booking that ends where the candidate starts, or starts where it ends, does not
  discard it.
\<close>

theorem discard_test_is_half_open_overlap:
  assumes "\<forall>b \<in> set ex. startTimeA b < endTimeA b"
  shows "(overlaps ex current (addMinutes current 30) \<longleftrightarrow>
            (\<exists>b \<in> set ex. current < endTimeA b \<and> startTimeA b < addMinutes current 30)) \<and>
         (loopGuard current end \<and> \<not> isBefore current now \<longrightarrow>
            slotLoop tz now ex end current =
              (if \<exists>b \<in> set ex. current < endTimeA b \<and> startTimeA b < addMinutes current 30
               then [] else [mkSlot tz current (addMinutes current 30)])
              @ slotLoop tz now ex end (addMinutes current 30))"
proof -
  have lt: "current < addMinutes current 30"
    using SLOT_MS_pos by (simp add: addMinutes_30)
  have iff: "overlaps ex current (addMinutes current 30) \<longleftrightarrow>
      (\<exists>b \<in> set ex. current < endTimeA b \<and> startTimeA b < addMinutes current 30)"
    unfolding overlaps_def list_ex_iff
    using assms overlapsOne_iff [OF _ lt] by blast
  show ?thesis
  proof (intro conjI impI)
    show "overlaps ex current (addMinutes current 30) \<longleftrightarrow>
      (\<exists>b \<in> set ex. current < endTimeA b \<and> startTimeA b < addMinutes current 30)"
      by (rule iff)
  next
    assume "loopGuard current end \<and> \<not> isBefore current now"
    then show "slotLoop tz now ex end current =
      (if \<exists>b \<in> set ex. current < endTimeA b \<and> startTimeA b < addMinutes current 30
       then [] else [mkSlot tz current (addMinutes current 30)])
      @ slotLoop tz now ex end (addMinutes current 30)"
      by (simp add: slotLoop_step accepted_def iff)
  qed
qed

theorem discard_test_is_half_open_overlap_witness:
  "overlaps [exBooking, exBookingLater] 32400000 (addMinutes 32400000 30) \<and>
   \<not> overlaps [exBooking, exBookingLater] 34200000 (addMinutes 34200000 30) \<and>
   endTimeA exBooking = 34200000 \<and> startTimeA exBookingLater = addMinutes 34200000 30 \<and>
   slotLoop 0 28800000 [exBooking, exBookingLater] 36000000 32400000 = [exSlot 34200000 570 0]"
proof -
  let ?ex = "[exBooking, exBookingLater]"
  have h: "\<forall>b \<in> set ?ex. startTimeA b < endTimeA b"
    by (simp add: exBooking_def exBookingLater_def)
  have g1: "loopGuard 32400000 36000000 \<and> \<not> isBefore 32400000 28800000"
    by (simp add: loopGuard_def isBefore_def addMinutes_def MS_PER_MINUTE_def)
  have g2: "loopGuard 34200000 36000000 \<and> \<not> isBefore 34200000 28800000"
    by (simp add: loopGuard_def isBefore_def addMinutes_def MS_PER_MINUTE_def)
  have a1: "addMinutes 32400000 30 = 34200000" and a2: "addMinutes 34200000 30 = 36000000"
    by (simp_all add: addMinutes_def MS_PER_MINUTE_def)
  have e: "slotLoop 0 28800000 ?ex 36000000 36000000 = []"
    by (rule slotLoop_done) (simp add: addMinutes_def MS_PER_MINUTE_def)
  have m: "mkSlot 0 34200000 36000000 = exSlot 34200000 570 0"
    by (simp add: mkSlot_def exSlot_def formatClock_def formatDayLabel_def localDay_def
        localTimeOfDay_def MS_PER_DAY_def MS_PER_MINUTE_def)
  note t1 = discard_test_is_half_open_overlap [OF h, of 32400000 36000000 28800000 0]
  note t2 = discard_test_is_half_open_overlap [OF h, of 34200000 36000000 28800000 0]
  have y1: "\<exists>b \<in> set ?ex. 32400000 < endTimeA b \<and> startTimeA b < 34200000"
    by (simp add: exBooking_def exBookingLater_def)
  have n2: "\<not> (\<exists>b \<in> set ?ex. 34200000 < endTimeA b \<and> startTimeA b < 36000000)"
    by (simp add: exBooking_def exBookingLater_def)
  have o1: "overlaps ?ex 32400000 (addMinutes 32400000 30)"
    using t1 y1 by (simp add: a1)
  have o2: "\<not> overlaps ?ex 34200000 (addMinutes 34200000 30)"
    using t2 n2 by (simp add: a2)
  have s2: "slotLoop 0 28800000 ?ex 36000000 34200000 = [exSlot 34200000 570 0]"
    using t2 g2 n2 by (simp add: a2 e m)
  have s1: "slotLoop 0 28800000 ?ex 36000000 32400000 = [exSlot 34200000 570 0]"
    using t1 g1 y1 by (simp add: a1 s2)
  have b: "endTimeA exBooking = 34200000 \<and> startTimeA exBookingLater = addMinutes 34200000 30"
    by (simp add: a2 exBooking_def exBookingLater_def)
  show ?thesis
    by (intro conjI o1 o2 s1 b [THEN conjunct1] b [THEN conjunct2])
qed

text \<open>
  Claim C3. Every slot of the result starts at or after the reference time. In the loop a
  candidate that starts strictly before the reference time is skipped, and a candidate
  that starts exactly at the reference time (and overlaps no booking) is pushed.
\<close>

theorem slots_not_before_reference_time:
  "(getAvailableTimeSlots env doctorId = Inr ds \<longrightarrow>
      (\<forall>d \<in> set ds. \<forall>s \<in> set (slots d). clock env \<le> startTime s)) \<and>
   (loopGuard current end \<and> isBefore current now \<longrightarrow>
      slotLoop tz now ex end current = slotLoop tz now ex end (addMinutes current 30)) \<and>
   (loopGuard now end \<and> \<not> overlaps ex now (addMinutes now 30) \<longrightarrow>
      slotLoop tz now ex end now =
        mkSlot tz now (addMinutes now 30) # slotLoop tz now ex end (addMinutes now 30))"
proof (intro conjI impI ballI)
  fix d s
  assume r: "getAvailableTimeSlots env doctorId = Inr ds"
    and d: "d \<in> set ds" and s: "s \<in> set (slots d)"
  from r obtain doctor av where
    ds: "ds = computeDays (tzOffset env) (clock env) av
            (findAppointments env doctor (endOfDay (tzOffset env) (addDays (clock env) 3)))"
    by (rule getAvailableTimeSlots_Inr)
  from d s obtain dy c where
    "accepted (clock env)
       (findAppointments env doctor (endOfDay (tzOffset env) (addDays (clock env) 3))) c"
    and "s = mkSlot (tzOffset env) c (c + SLOT_MS)"
    unfolding ds by (rule day_slot_cases)
  then show "clock env \<le> startTime s"
    by (simp add: accepted_def isBefore_def mkSlot_def)
next
  assume "loopGuard current end \<and> isBefore current now"
  then show "slotLoop tz now ex end current = slotLoop tz now ex end (addMinutes current 30)"
    by (simp add: slotLoop_step accepted_def)
next
  assume "loopGuard now end \<and> \<not> overlaps ex now (addMinutes now 30)"
  then show "slotLoop tz now ex end now =
        mkSlot tz now (addMinutes now 30) # slotLoop tz now ex end (addMinutes now 30)"
    by (simp add: slotLoop_step accepted_def isBefore_def)
qed

theorem slots_not_before_reference_time_witness:
  "getAvailableTimeSlots exEnvLate ''doc1'' = Inr exDaysLate \<and>
   clock exEnvLate = 33300000 \<and>
   clock exEnvLate \<le> startTime (exSlot 34200000 570 0) \<and>
   slotLoop 0 33300000 [] 36000000 32400000 = slotLoop 0 33300000 [] 36000000 34200000 \<and>
   slotLoop 0 34200000 [] 36000000 34200000 = [exSlot 34200000 570 0]"
proof -
  note t = slots_not_before_reference_time
    [of exEnvLate "''doc1''" exDaysLate 32400000 36000000 33300000 0 "[]"]
  note u = slots_not_before_reference_time
    [of exEnvLate "''doc1''" exDaysLate 32400000 36000000 34200000 0 "[]"]
  have a1: "addMinutes 32400000 30 = 34200000" and a2: "addMinutes 34200000 30 = 36000000"
    by (simp_all add: addMinutes_def MS_PER_MINUTE_def)
  have c1: "clock exEnvLate \<le> startTime (exSlot 34200000 570 0)"
    using t exEnvLate_result by (simp add: exDaysLate_def)
  have c2: "slotLoop 0 33300000 [] 36000000 32400000 = slotLoop 0 33300000 [] 36000000 34200000"
    using t by (simp add: loopGuard_def isBefore_def a1)
  have e: "slotLoop 0 34200000 [] 36000000 36000000 = []"
    by (rule slotLoop_done) (simp add: addMinutes_def MS_PER_MINUTE_def)
  have m: "mkSlot 0 34200000 36000000 = exSlot 34200000 570 0"
    by (simp add: mkSlot_def exSlot_def formatClock_def formatDayLabel_def localDay_def
        localTimeOfDay_def MS_PER_DAY_def MS_PER_MINUTE_def)
  have c3: "slotLoop 0 34200000 [] 36000000 34200000 = [exSlot 34200000 570 0]"
    using u by (simp add: loopGuard_def isBefore_def overlaps_def a2 e m)
  show ?thesis
    using exEnvLate_result c1 c2 c3 by (simp add: exEnvLate_def)
qed



text \<open>
  Claim C5. Every slot of the result starts a whole number of 30-minute steps after the
  start of its day's window (the window's start set onto that day), and ends 30 minutes
  after it starts.
\<close>

theorem slot_starts_on_half_hour_grid:
  assumes "getAvailableTimeSlots env doctorId = Inr ds"
    and "findDoctor env doctorId = Some doctor"
    and "findAvailability env doctor = Some av"
    and "i < 4" and "s \<in> set (slots (ds ! i))"
  shows "(startTime s - availabilityStartOf (tzOffset env) av (nextDays (clock env) ! i))
            mod (30 * MS_PER_MINUTE) = 0 \<and>
         endTime s = addMinutes (startTime s) 30"
proof -
  define tz where "tz = tzOffset env"
  define now where "now = clock env"
  define dy where "dy = nextDays now ! i"
  from assms(1) obtain doctor' av' ex where
    "findDoctor env doctorId = Some doctor'" "findAvailability env doctor' = Some av'"
    and ds: "ds = computeDays tz now av' ex"
    unfolding tz_def now_def by (rule getAvailableTimeSlots_Inr)
  with assms(2,3) have av: "av' = av" by simp
  have "slots (ds ! i) = daySlots tz now av ex dy"
    using assms(4) by (simp add: ds av computeDays_eq length_nextDays dy_def)
  with assms(5) obtain c where
    c: "c \<in> set (candidates (availabilityEndOf tz av dy) (availabilityStartOf tz av dy))"
    and s: "s = mkSlot tz c (c + SLOT_MS)"
    by (auto simp: daySlots_def slotLoop_mem)
  from c obtain k :: nat where k: "c = availabilityStartOf tz av dy + int k * SLOT_MS"
    by (auto simp: candidates_mem)
  have "(startTime s - availabilityStartOf tz av dy) mod SLOT_MS = 0"
    by (simp add: s mkSlot_def k)
  moreover have "endTime s = addMinutes (startTime s) 30"
    by (simp add: s mkSlot_def addMinutes_30)
  ultimately show ?thesis
    by (simp add: tz_def now_def dy_def SLOT_MS_def)
qed

theorem slot_starts_on_half_hour_grid_witness:
  "getAvailableTimeSlots exEnv ''doc1'' = Inr exDays \<and>
   availabilityStartOf (tzOffset exEnv) exWindow (nextDays (clock exEnv) ! 1) = 118800000 \<and>
   (startTime (exSlot 120600000 570 1) - 118800000) mod (30 * MS_PER_MINUTE) = 0 \<and>
   endTime (exSlot 120600000 570 1) = addMinutes (startTime (exSlot 120600000 570 1)) 30"
proof -
  have d: "findDoctor exEnv ''doc1'' = Some exDoctor"
    by (simp add: findDoctor_def exEnv_def exDoctor_def)
  have a: "findAvailability exEnv exDoctor = Some exWindow"
    by (simp add: findAvailability_def exEnv_def exDoctor_def exWindow_def)
  have i: "(1::nat) < 4" by simp
  have s: "exSlot 120600000 570 1 \<in> set (slots (exDays ! 1))"
    by (simp add: exDays_def)
  have st: "availabilityStartOf (tzOffset exEnv) exWindow (nextDays (clock exEnv) ! 1) = 118800000"
    by (simp add: availabilityStartOf_def setFullYear_def nextDays_def addDays_def localDay_def
        localTimeOfDay_def exEnv_def exWindow_def MS_PER_DAY_def)
  show ?thesis
    using slot_starts_on_half_hour_grid [OF exEnv_result d a i s] exEnv_result st
    by simp
qed

text \<open>
  Claim C6. A result has one record for each of the four calendar days from the day of
  the reference time on, in that order, and the slots of each record are in strictly
  increasing order of start time. A day with a free slot is labelled with its own date
  (the label of its first slot). A day without a free slot has its record all the same,
  with no slots, but its label is not always that of its date: it is read from
  \<open>new Date(date)\<close>, midnight UTC of the date, in the local zone, and so names the day
  before the date in every zone west of UTC.
\<close>

theorem day_records_and_their_labels:
  assumes "getAvailableTimeSlots env doctorId = Inr ds"
  shows "map date ds =
           [formatDate (tzOffset env) (clock env), formatDate (tzOffset env) (clock env) + 1,
            formatDate (tzOffset env) (clock env) + 2, formatDate (tzOffset env) (clock env) + 3] \<and>
         (\<forall>d \<in> set ds.
            sorted_wrt (<) (map startTime (slots d)) \<and>
            (slots d \<noteq> [] \<longrightarrow> displayDate d = date d) \<and>
            (slots d = [] \<longrightarrow>
               displayDate d = date d + tzOffset env div MS_PER_DAY \<and>
               (- MS_PER_DAY \<le> tzOffset env \<and> tzOffset env < 0 \<longrightarrow>
                  displayDate d = date d - 1)))"
proof -
  define tz where "tz = tzOffset env"
  define now where "now = clock env"
  from assms obtain doctor av ex where ds: "ds = computeDays tz now av ex"
    unfolding tz_def now_def by (rule getAvailableTimeSlots_Inr)
  have 1: "map date ds =
      [formatDate tz now, formatDate tz now + 1, formatDate tz now + 2, formatDate tz now + 3]"
    by (simp add: ds computeDays_eq o_def nextDays_def formatDate_def localDay_addDays)
  have w: "tz div MS_PER_DAY = - 1" if "- MS_PER_DAY \<le> tz" "tz < 0"
    using that div_day_unique [of "- 1" tz] by simp
  have 2: "sorted_wrt (<) (map startTime (slots d)) \<and>
      (slots d \<noteq> [] \<longrightarrow> displayDate d = date d) \<and>
      (slots d = [] \<longrightarrow>
         displayDate d = date d + tz div MS_PER_DAY \<and>
         (- MS_PER_DAY \<le> tz \<and> tz < 0 \<longrightarrow> displayDate d = date d - 1))"
    if "d \<in> set ds" for d
  proof -
    from that obtain dy where d: "d = toTimeSlotDay tz (formatDate tz dy, daySlots tz now av ex dy)"
      by (auto simp: ds computeDays_eq)
    have s: "sorted_wrt (<) (map startTime (slots d))"
      by (simp add: d daySlots_def sorted_slotLoop)
    have n: "displayDate d = date d" if "slots d \<noteq> []"
    proof -
      from that have ne: "slotLoop tz now ex (availabilityEndOf tz av dy)
          (availabilityStartOf tz av dy) \<noteq> []"
        by (simp add: d daySlots_def)
      then obtain c where
        c: "c \<in> set (candidates (availabilityEndOf tz av dy) (availabilityStartOf tz av dy))"
        and h: "hd (slotLoop tz now ex (availabilityEndOf tz av dy)
                  (availabilityStartOf tz av dy)) = mkSlot tz c (c + SLOT_MS)"
        by (rule slotLoop_hd_candidate)
      have "displayDate d = formatDayLabel tz c"
        using ne by (simp add: d displayDate_toTimeSlotDay daySlots_def h mkSlot_def)
      also have "\<dots> = localDay tz dy"
        by (simp add: formatDayLabel_def candidate_same_day [OF c])
      finally show ?thesis
        by (simp add: d formatDate_def)
    qed
    have e: "displayDate d = date d + tz div MS_PER_DAY" if "slots d = []"
      using that by (simp add: d displayDate_toTimeSlotDay formatDayLabel_newDate)
    have e': "displayDate d = date d - 1" if "slots d = []" "- MS_PER_DAY \<le> tz" "tz < 0"
      using e [OF that(1)] w [OF that(2,3)] by simp
    show ?thesis
      using s n e e' by blast
  qed
  show ?thesis
    using 1 2 unfolding tz_def now_def by blast
qed

theorem day_records_and_their_labels_witness:
  "getAvailableTimeSlots exEnvWest ''doc1'' = Inr exDaysWest \<and>
   tzOffset exEnvWest = - 18000000 \<and>
   map date exDaysWest = [0, 1, 2, 3] \<and>
   slots (exDaysWest ! 0) = [] \<and>
   date (exDaysWest ! 0) = 0 \<and>
   displayDate (exDaysWest ! 0) = - 1 \<and>
   length (slots (exDaysWest ! 1)) = 2 \<and>
   displayDate (exDaysWest ! 1) = date (exDaysWest ! 1) \<and>
   sorted_wrt (<) (map startTime (slots (exDaysWest ! 1)))"
proof -
  note t = day_records_and_their_labels [OF exEnvWest_result]
  have k: "formatDate (tzOffset exEnvWest) (clock exEnvWest) = 0"
    by (simp add: formatDate_def localDay_def exEnvWest_def MS_PER_DAY_def)
  have z: "tzOffset exEnvWest = - 18000000" by (simp add: exEnvWest_def)
  have zb: "- MS_PER_DAY \<le> tzOffset exEnvWest \<and> tzOffset exEnvWest < 0"
    by (simp add: exEnvWest_def MS_PER_DAY_def)
  have m0: "exDaysWest ! 0 \<in> set exDaysWest" and m1: "exDaysWest ! 1 \<in> set exDaysWest"
    by (simp_all add: exDaysWest_def)
  have e: "slots (exDaysWest ! 0) = []" and d0: "date (exDaysWest ! 0) = 0"
    and l: "length (slots (exDaysWest ! 1)) = 2" and ne: "slots (exDaysWest ! 1) \<noteq> []"
    by (simp_all add: exDaysWest_def)
  have a: "map date exDaysWest = [0, 1, 2, 3]"
    using t [THEN conjunct1] by (simp add: k)
  have b: "displayDate (exDaysWest ! 0) = - 1"
    using t [THEN conjunct2, rule_format, OF m0] e zb by (simp add: d0)
  have c: "displayDate (exDaysWest ! 1) = date (exDaysWest ! 1)"
    and s: "sorted_wrt (<) (map startTime (slots (exDaysWest ! 1)))"
    using t [THEN conjunct2, rule_format, OF m1] ne by simp_all
  show ?thesis
    by (intro conjI exEnvWest_result z a e d0 b l c s)
qed

text \<open>
  Claim C7. When the doctor has no availability record with status \<open>AVAILABLE\<close>, the call
  fails with an error and returns no days.
\<close>

theorem no_available_window_fails:
  assumes "\<forall>a \<in> set (availabilities env). availDoctorId a = doctorId \<longrightarrow> availStatus a \<noteq> ''AVAILABLE''"
  shows "getAvailableTimeSlots env doctorId =
           Inl (''Failed to fetch available slots: '' @
                (if findDoctor env doctorId = None then ''Doctor not found or not verified''
                 else ''No availability set by doctor''))"
proof (cases "findDoctor env doctorId")
  case None
  then show ?thesis
    by (simp add: getAvailableTimeSlots_def tryBlock_def)
next
  case (Some doctor)
  then have "userId doctor = doctorId" by (rule findDoctor_id)
  with assms have "findAvailability env doctor = None"
    by (auto simp: findAvailability_def find_None_iff)
  with Some show ?thesis
    by (simp add: getAvailableTimeSlots_def tryBlock_def)
qed

theorem no_available_window_fails_witness:
  "findDoctor exEnvNoWindow ''doc1'' = Some exDoctor \<and>
   getAvailableTimeSlots exEnvNoWindow ''doc1'' =
     Inl ''Failed to fetch available slots: No availability set by doctor''"
proof -
  have h: "\<forall>a \<in> set (availabilities exEnvNoWindow).
      availDoctorId a = ''doc1'' \<longrightarrow> availStatus a \<noteq> ''AVAILABLE''"
    by (simp add: exEnvNoWindow_def exWindow_def)
  have d: "findDoctor exEnvNoWindow ''doc1'' = Some exDoctor"
    by (simp add: findDoctor_def exEnvNoWindow_def exDoctor_def)
  show ?thesis
    using no_available_window_fails [OF h] d by simp
qed

text \<open>
  Claim C8 says that a window whose daily start is not before its daily end makes the
  call fail. It does not: for a window from 17:00 to 09:00 the call returns four days,
  each without slots.
\<close>

theorem reversed_window_counterexample:
  "findAvailability exEnvReversed exDoctor = Some exWindowReversed \<and>
   localTimeOfDay 0 (availEndTime exWindowReversed) = 32400000 \<and>
   localTimeOfDay 0 (availStartTime exWindowReversed) = 61200000 \<and>
   getAvailableTimeSlots exEnvReversed ''doc1'' = Inr exDaysEmpty"
  by code_simp

text \<open>
  Claim C8, amended. For a window whose daily start is not before its daily end the call
  raises no error: it returns the four day records, each with an empty slot list.
\<close>

theorem reversed_window_yields_empty_days:
  assumes "findDoctor env doctorId = Some doctor"
    and "findAvailability env doctor = Some av"
    and "localTimeOfDay (tzOffset env) (availEndTime av)
           \<le> localTimeOfDay (tzOffset env) (availStartTime av)"
  shows "getAvailableTimeSlots env doctorId =
           Inr (map (\<lambda>d. \<lparr> date = formatDate (tzOffset env) d,
                           displayDate = formatDayLabel (tzOffset env)
                                           (newDateOfDateText (formatDate (tzOffset env) d)),
                           slots = [] \<rparr>)
                  (nextDays (clock env)))"
  using assms(1,2)
  by (simp add: getAvailableTimeSlots_def tryBlock_def Let_def computeDays_eq
      daySlots_reversed [OF assms(3)] toTimeSlotDay_def)

theorem reversed_window_yields_empty_days_witness:
  "localTimeOfDay (tzOffset exEnvReversed) (availEndTime exWindowReversed)
     \<le> localTimeOfDay (tzOffset exEnvReversed) (availStartTime exWindowReversed) \<and>
   getAvailableTimeSlots exEnvReversed ''doc1'' = Inr exDaysEmpty"
proof -
  have d: "findDoctor exEnvReversed ''doc1'' = Some exDoctor"
    by (simp add: findDoctor_def exEnvReversed_def exDoctor_def)
  have a: "findAvailability exEnvReversed exDoctor = Some exWindowReversed"
    by (simp add: findAvailability_def exEnvReversed_def exDoctor_def exWindowReversed_def)
  have l: "localTimeOfDay (tzOffset exEnvReversed) (availEndTime exWindowReversed)
     \<le> localTimeOfDay (tzOffset exEnvReversed) (availStartTime exWindowReversed)"
    by (simp add: localTimeOfDay_def exEnvReversed_def exWindowReversed_def MS_PER_DAY_def)
  have r: "map (\<lambda>d. \<lparr> date = formatDate (tzOffset exEnvReversed) d,
                           displayDate = formatDayLabel (tzOffset exEnvReversed)
                                           (newDateOfDateText (formatDate (tzOffset exEnvReversed) d)),
                           slots = [] \<rparr>)
                  (nextDays (clock exEnvReversed)) = exDaysEmpty"
    by code_simp
  show ?thesis
    using reversed_window_yields_empty_days [OF d a l] l by (simp only: r)
qed

text \<open>
  Claim C9 says that the result does not depend on a system clock read inside the
  function. It does: the function takes the doctor's id only and reads the clock itself,
  and the same tables read at 08:00 and at 12:00 give different results.
\<close>

theorem clock_dependence_counterexample:
  "users exEnv = users exEnvNoon \<and> availabilities exEnv = availabilities exEnvNoon \<and>
   appointments exEnv = appointments exEnvNoon \<and> tzOffset exEnv = tzOffset exEnvNoon \<and>
   clock exEnv = 28800000 \<and> clock exEnvNoon = 43200000 \<and>
   getAvailableTimeSlots exEnv ''doc1'' \<noteq> getAvailableTimeSlots exEnvNoon ''doc1''"
proof -
  have "exDays \<noteq> exDaysNoon"
    by (simp add: exDays_def exDaysNoon_def)
  then have "getAvailableTimeSlots exEnv ''doc1'' \<noteq> getAvailableTimeSlots exEnvNoon ''doc1''"
    by (simp add: exEnv_result exEnvNoon_result)
  then show ?thesis
    by (simp add: exEnv_def exEnvNoon_def)
qed

text \<open>
  Claim C9, amended. The result is a function of the doctor's id, of what the call
  fetches for that doctor (whether a verified doctor has the id, the first \<open>AVAILABLE\<close>
  window, the \<open>SCHEDULED\<close> appointments that start by the end of the fourth day), of the
  clock value the function reads itself and of the zone: two calls that agree on these
  return the same result, whatever else the tables hold. A call leaves the tables, the
  clock value and the zone as it found them.
\<close>

theorem result_determined_by_fetched_data_and_clock:
  assumes "(findDoctor env1 doctorId = None) = (findDoctor env2 doctorId = None)"
    and "find (\<lambda>a. availDoctorId a = doctorId \<and> availStatus a = ''AVAILABLE'') (availabilities env1) =
         find (\<lambda>a. availDoctorId a = doctorId \<and> availStatus a = ''AVAILABLE'') (availabilities env2)"
    and "filter (\<lambda>a. apptDoctorId a = doctorId \<and> apptStatus a = ''SCHEDULED'' \<and>
                     startTimeA a \<le> endOfDay (tzOffset env1) (addDays (clock env1) 3))
           (appointments env1) =
         filter (\<lambda>a. apptDoctorId a = doctorId \<and> apptStatus a = ''SCHEDULED'' \<and>
                     startTimeA a \<le> endOfDay (tzOffset env2) (addDays (clock env2) 3))
           (appointments env2)"
    and "clock env1 = clock env2" and "tzOffset env1 = tzOffset env2"
  shows "getAvailableTimeSlots env1 doctorId = getAvailableTimeSlots env2 doctorId \<and>
         getAvailableTimeSlotsRun env1 doctorId = (getAvailableTimeSlots env1 doctorId, env1) \<and>
         getAvailableTimeSlotsRun env2 doctorId = (getAvailableTimeSlots env2 doctorId, env2)"
proof -
  have "getAvailableTimeSlots env1 doctorId = getAvailableTimeSlots env2 doctorId"
  proof (cases "findDoctor env1 doctorId")
    case None
    with assms(1) show ?thesis
      by (simp add: getAvailableTimeSlots_def tryBlock_def)
  next
    case (Some doctor1)
    with assms(1) obtain doctor2 where d2: "findDoctor env2 doctorId = Some doctor2"
      by auto
    have i1: "userId doctor1 = doctorId" using Some by (rule findDoctor_id)
    have i2: "userId doctor2 = doctorId" using d2 by (rule findDoctor_id)
    have a: "findAvailability env1 doctor1 = findAvailability env2 doctor2"
      by (simp only: findAvailability_by_id [OF i1] findAvailability_by_id [OF i2] assms(2))
    have b: "findAppointments env1 doctor1 (endOfDay (tzOffset env1) (addDays (clock env1) 3)) =
        findAppointments env2 doctor2 (endOfDay (tzOffset env2) (addDays (clock env2) 3))"
      by (simp only: findAppointments_fetched [OF i1] findAppointments_fetched [OF i2] assms(3))
    show ?thesis
      using b
      by (cases "findAvailability env2 doctor2")
         (simp_all add: getAvailableTimeSlots_def tryBlock_def Some d2 a assms(4,5) Let_def
            nextDays_def)
  qed
  then show ?thesis
    by (simp add: getAvailableTimeSlotsRun_eq)
qed

theorem result_determined_by_fetched_data_and_clock_witness:
  "appointments exEnvOther = [exOtherBooking, exBooking, exBookingDay10] \<and>
   appointments exEnv = [exBooking] \<and>
   getAvailableTimeSlots exEnv ''doc1'' = Inr exDays \<and>
   getAvailableTimeSlots exEnvOther ''doc1'' = Inr exDays \<and>
   getAvailableTimeSlotsRun exEnvOther ''doc1'' = (Inr exDays, exEnvOther)"
proof -
  have 1: "(findDoctor exEnv ''doc1'' = None) = (findDoctor exEnvOther ''doc1'' = None)"
    by (simp add: findDoctor_def exEnv_def exEnvOther_def)
  have 2: "find (\<lambda>a. availDoctorId a = ''doc1'' \<and> availStatus a = ''AVAILABLE'') (availabilities exEnv) =
         find (\<lambda>a. availDoctorId a = ''doc1'' \<and> availStatus a = ''AVAILABLE'') (availabilities exEnvOther)"
    by (simp add: exEnv_def exEnvOther_def)
  have 3: "filter (\<lambda>a. apptDoctorId a = ''doc1'' \<and> apptStatus a = ''SCHEDULED'' \<and>
                     startTimeA a \<le> endOfDay (tzOffset exEnv) (addDays (clock exEnv) 3))
           (appointments exEnv) =
         filter (\<lambda>a. apptDoctorId a = ''doc1'' \<and> apptStatus a = ''SCHEDULED'' \<and>
                     startTimeA a \<le> endOfDay (tzOffset exEnvOther) (addDays (clock exEnvOther) 3))
           (appointments exEnvOther)"
    by (simp add: exEnv_def exEnvOther_def exBooking_def exOtherBooking_def exBookingDay10_def
        endOfDay_def addDays_def localDay_def MS_PER_DAY_def)
  have 4: "clock exEnv = clock exEnvOther" and 5: "tzOffset exEnv = tzOffset exEnvOther"
    by (simp_all add: exEnv_def exEnvOther_def)
  have a: "appointments exEnvOther = [exOtherBooking, exBooking, exBookingDay10]"
    and b: "appointments exEnv = [exBooking]"
    by (simp_all add: exEnv_def exEnvOther_def)
  note t = result_determined_by_fetched_data_and_clock [OF 1 2 3 4 5]
  have c: "getAvailableTimeSlots exEnvOther ''doc1'' = Inr exDays"
    using t [THEN conjunct1] exEnv_result by simp
  have d: "getAvailableTimeSlotsRun exEnvOther ''doc1'' = (Inr exDays, exEnvOther)"
    using t [THEN conjunct2, THEN conjunct2] c by simp
  show ?thesis
    by (intro conjI a b exEnv_result c d)
qed

text \<open>
  Claim C10. The loop of a day ends for every input: its body runs as many times as whole
  30-minute steps fit between the window's start and its end, so at most the window's
  length divided by 30 minutes, and it pushes at most one slot per run. When the end is
  not after the start, the body does not run and the day has no slots.
\<close>

theorem loop_runs_window_div_30_times:
  "loopIterations dayEnd dayStart = nat ((dayEnd - dayStart) div (30 * MS_PER_MINUTE)) \<and>
   int (loopIterations dayEnd dayStart) * (30 * MS_PER_MINUTE) \<le> max 0 (dayEnd - dayStart) \<and>
   length (slotLoop tz now ex dayEnd dayStart) \<le> loopIterations dayEnd dayStart \<and>
   (dayEnd \<le> dayStart \<longrightarrow>
      loopIterations dayEnd dayStart = 0 \<and> slotLoop tz now ex dayEnd dayStart = [])"
proof -
  have n: "loopIterations dayEnd dayStart = nat ((dayEnd - dayStart) div SLOT_MS)"
    by (simp add: loopIterations_closed candidates_def)
  have b: "int (nat ((dayEnd - dayStart) div SLOT_MS)) * SLOT_MS \<le> max 0 (dayEnd - dayStart)"
  proof (cases "0 \<le> (dayEnd - dayStart) div SLOT_MS")
    case True
    then have "int (nat ((dayEnd - dayStart) div SLOT_MS)) * SLOT_MS \<le> dayEnd - dayStart"
      using le_div_SLOT [of "(dayEnd - dayStart) div SLOT_MS" "dayEnd - dayStart"] by simp
    then show ?thesis by simp
  next
    case False
    then show ?thesis by simp
  qed
  have l: "length (slotLoop tz now ex dayEnd dayStart) \<le> loopIterations dayEnd dayStart"
    by (simp add: slotLoop_closed loopIterations_closed)
  have z: "candidates dayEnd dayStart = []" if "dayEnd \<le> dayStart"
    using that SLOT_MS_pos by (intro candidates_stop) simp
  show ?thesis
    using n b l z
    by (simp add: SLOT_MS_def [symmetric] slotLoop_closed loopIterations_closed)
qed

theorem loop_runs_window_div_30_times_witness:
  "loopIterations 61200000 32400000 = 16 \<and>
   loopIterations 32400000 61200000 = 0 \<and>
   slotLoop 0 28800000 [exBooking] 32400000 61200000 = []"
proof -
  have le: "(32400000::int) \<le> 61200000" by simp
  have a: "loopIterations 61200000 32400000 = 16"
    using loop_runs_window_div_30_times [of 61200000 32400000 0 28800000 "[exBooking]"]
    by (simp add: MS_PER_MINUTE_def)
  have b: "loopIterations 32400000 61200000 = 0 \<and>
      slotLoop 0 28800000 [exBooking] 32400000 61200000 = []"
    using loop_runs_window_div_30_times [of 32400000 61200000 0 28800000 "[exBooking]"] le
    by (simp add: MS_PER_MINUTE_def)
  show ?thesis using a b by simp
qed

end
